theory Spec2Isabelle
  imports Complex_Main "HOL-Library.AList" "HOL-Library.Sublist"
begin

section \<open>Values\<close>

text \<open>
  A parsed JSON document, as \<^verbatim>\<open>make_get_request\<close> hands it to the methods of
  \<^verbatim>\<open>NOAA\<close>. A JSON object is a Python dict: the association list is read with
  \<open>map_of\<close>. Finite floats are rationals; strings are lists of characters.
\<close>

datatype json =
    JNull
  | JBool bool
  | JInt int
  | JFloat rat
  | JStr string
  | JList "json list"
  | JObj "(string \<times> json) list"

text \<open>A scalar Python value, as passed in a keyword argument.\<close>

datatype pyval = PNone | PBool bool | PInt int | PStr string

text \<open>
  One constructor for each \<^verbatim>\<open>raise\<close> of \<^verbatim>\<open>noaa.py\<close>, carrying the values the
  message is formatted from, and one for each built-in exception that the
  subscripting, membership and method calls of the source can raise.

  \<^item> \<open>StationIdRequired\<close>: \<^verbatim>\<open>Exception("'station_id' is required.")\<close>
  \<^item> \<open>CurrentAndRecordId\<close>: \<^verbatim>\<open>Exception("Cannot have both 'current' and 'recordId'")\<close>
  \<^item> \<open>StatusError status detail\<close>:
    \<^verbatim>\<open>Exception('Status: {}, NOAA API Error Response: {}'.format(res['status'], res['detail']))\<close>
  \<^item> \<open>PropertiesNotFound\<close>: \<^verbatim>\<open>Exception('"properties" attribute not found. ...')\<close>
  \<^item> \<open>PeriodsNotFound\<close>: \<^verbatim>\<open>Exception('"periods" attribute not found. ...')\<close>
  \<^item> \<open>NoObservationStations\<close>: \<^verbatim>\<open>Exception('Error: No Observation Stations found.')\<close>
  \<^item> \<open>FeaturesNotFound doc\<close>: \<^verbatim>\<open>Exception(observations)\<close>
  \<^item> \<open>InvalidZipCodeError\<close>: \<^verbatim>\<open>InvalidZipCodeError('Invalid ZIP Code')\<close>
  \<^item> \<open>CollaboratorError msg\<close>: whatever the transport or the timestamp parser raises.
\<close>

datatype error =
    StationIdRequired
  | CurrentAndRecordId
  | StatusError json json
  | PropertiesNotFound
  | PeriodsNotFound
  | NoObservationStations
  | FeaturesNotFound json
  | InvalidZipCodeError
  | KeyError string
  | TypeError
  | AttributeError
  | AssertionError
  | CollaboratorError string

type_synonym params = "(string \<times> pyval) list"

text \<open>The outcome of a call, with the requests it sent to the transport, in order.\<close>

type_synonym 'a fetched = "(error + 'a) \<times> json list"

text \<open>
  What a fully consumed generator did: the values it yielded, the exception that ended
  it (if any), and the requests it sent.
\<close>

type_synonym stream = "json list \<times> error option \<times> json list"

section \<open>Collaborators\<close>

text \<open>
  The parts of \<^verbatim>\<open>self\<close> and of the imported libraries that \<^verbatim>\<open>noaa.py\<close> calls and
  does not define:
  \<^item> \<open>transport uri\<close>: \<^verbatim>\<open>UTIL.make_get_request(uri, end_point=DEFAULT_END_POINT)\<close>,
    the parsed document or the exception raised;
  \<^item> \<open>parse_param_timestamp v\<close>: \<^verbatim>\<open>UTIL.parse_param_timestamp\<close>, whose value the source
    drops: \<open>None\<close> when it returns, \<open>Some e\<close> when it raises;
  \<^item> \<open>urlencode\<close>: \<^verbatim>\<open>urllib.parse.urlencode\<close>;
  \<^item> \<open>round4 x\<close> and \<open>str_float x\<close>: \<^verbatim>\<open>round(x, 4)\<close> and the text \<^verbatim>\<open>'{}'.format(x)\<close>
    of a float;
  \<^item> \<open>by_zipcode\<close>, \<open>zipcode_lat\<close>, \<open>zipcode_lng\<close>: \<^verbatim>\<open>SearchEngine.by_zipcode\<close> and the
    \<^verbatim>\<open>lat\<close>, \<^verbatim>\<open>lng\<close> attributes of its result;
  \<^item> \<open>query_postal_code country code\<close>, \<open>latitude\<close>, \<open>longitude\<close>:
    \<^verbatim>\<open>pgeocode.Nominatim(country).query_postal_code(code)\<close> and its attributes;
  \<^item> \<open>isnan\<close>: \<^verbatim>\<open>math.isnan\<close>.
\<close>

record ('f, 'o) env =
  transport :: "json \<Rightarrow> error + json"
  parse_param_timestamp :: "pyval \<Rightarrow> error option"
  urlencode :: "params \<Rightarrow> string"
  round4 :: "'f \<Rightarrow> 'f"
  str_float :: "'f \<Rightarrow> string"
  by_zipcode :: "string \<Rightarrow> 'o"
  zipcode_lat :: "'o \<Rightarrow> 'f option"
  zipcode_lng :: "'o \<Rightarrow> 'f option"
  query_postal_code :: "string \<Rightarrow> string \<Rightarrow> 'o"
  latitude :: "'o \<Rightarrow> 'f"
  longitude :: "'o \<Rightarrow> 'f"
  isnan :: "'f \<Rightarrow> bool"

definition make_get_request :: "('f, 'o) env \<Rightarrow> json \<Rightarrow> json fetched" where
  "make_get_request env uri = (transport env uri, [uri])"

section \<open>Python operations on values\<close>

text \<open>\<^verbatim>\<open>k in doc\<close> for a string \<open>k\<close>.\<close>

definition py_in :: "string \<Rightarrow> json \<Rightarrow> error + bool" where
  "py_in k doc =
     (case doc of
        JObj kvs \<Rightarrow> Inr (k \<in> set (map fst kvs))
      | JList xs \<Rightarrow> Inr (JStr k \<in> set xs)
      | JStr s \<Rightarrow> Inr (sublist k s)
      | _ \<Rightarrow> Inl TypeError)"

text \<open>\<^verbatim>\<open>doc[k]\<close> for a string \<open>k\<close>.\<close>

definition py_getitem :: "json \<Rightarrow> string \<Rightarrow> error + json" where
  "py_getitem doc k =
     (case doc of
        JObj kvs \<Rightarrow> (case map_of kvs k of None \<Rightarrow> Inl (KeyError k) | Some v \<Rightarrow> Inr v)
      | _ \<Rightarrow> Inl TypeError)"

text \<open>\<^verbatim>\<open>doc.get(k)\<close>.\<close>

definition py_get :: "json \<Rightarrow> string \<Rightarrow> error + json" where
  "py_get doc k =
     (case doc of
        JObj kvs \<Rightarrow> Inr (case map_of kvs k of None \<Rightarrow> JNull | Some v \<Rightarrow> v)
      | _ \<Rightarrow> Inl AttributeError)"

text \<open>The elements that \<^verbatim>\<open>for x in doc\<close> visits.\<close>

definition py_iter :: "json \<Rightarrow> error + json list" where
  "py_iter doc =
     (case doc of
        JList xs \<Rightarrow> Inr xs
      | JObj kvs \<Rightarrow> Inr (map JStr (remdups (map fst kvs)))
      | JStr s \<Rightarrow> Inr (map (\<lambda>c. JStr [c]) s)
      | _ \<Rightarrow> Inl TypeError)"

text \<open>\<^verbatim>\<open>type(doc) == dict\<close>.\<close>

definition is_dict :: "json \<Rightarrow> bool" where
  "is_dict doc = (case doc of JObj kvs \<Rightarrow> True | _ \<Rightarrow> False)"

text \<open>\<^verbatim>\<open>v == 503\<close>.\<close>

definition eq_503 :: "json \<Rightarrow> bool" where
  "eq_503 v = (case v of JInt i \<Rightarrow> i = 503 | JFloat r \<Rightarrow> r = 503 | _ \<Rightarrow> False)"

text \<open>\<^verbatim>\<open>station.split('/')[-1]\<close>: the text after the last slash.\<close>

definition last_segment :: "string \<Rightarrow> string" where
  "last_segment s = rev (takeWhile (\<lambda>c. c \<noteq> CHR ''/'') (rev s))"

definition split_last :: "json \<Rightarrow> error + string" where
  "split_last station =
     (case station of JStr s \<Rightarrow> Inr (last_segment s) | _ \<Rightarrow> Inl AttributeError)"

text \<open>\<^verbatim>\<open>s.replace(' ', 'T')\<close>.\<close>

definition replace_space_T :: "string \<Rightarrow> string" where
  "replace_space_T s = map (\<lambda>c. if c = CHR '' '' then CHR ''T'' else c) s"

text \<open>The truth value of a keyword argument in \<^verbatim>\<open>if v:\<close>.\<close>

definition truthy :: "pyval \<Rightarrow> bool" where
  "truthy v =
     (case v of PNone \<Rightarrow> False | PBool b \<Rightarrow> b | PInt i \<Rightarrow> i \<noteq> 0 | PStr s \<Rightarrow> s \<noteq> [])"

text \<open>The text of a value in \<^verbatim>\<open>'{}'.format(v)\<close>.\<close>

fun str_nat :: "nat \<Rightarrow> string" where
  "str_nat n =
     (if n < 10 then [char_of (48 + n)]
      else str_nat (n div 10) @ [char_of (48 + n mod 10)])"

declare str_nat.simps [simp del]

definition py_str :: "pyval \<Rightarrow> string" where
  "py_str v =
     (case v of
        PNone \<Rightarrow> ''None''
      | PBool b \<Rightarrow> (if b then ''True'' else ''False'')
      | PInt i \<Rightarrow> (if i < 0 then CHR ''-'' # str_nat (nat (- i)) else str_nat (nat i))
      | PStr s \<Rightarrow> s)"

text \<open>The keyword arguments \<^verbatim>\<open>**params\<close> as a dict.\<close>

definition has_key :: "string \<Rightarrow> params \<Rightarrow> bool" where
  "has_key k ps = (k \<in> set (map fst ps))"

definition dict_len :: "params \<Rightarrow> nat" where
  "dict_len ps = length (remdups (map fst ps))"

section \<open>Station observations\<close>

text \<open>
  Lines 296 to 304 and 305 to 313 of \<^verbatim>\<open>stations_observations\<close>, which differ in the key
  and in the time of day appended to a date: the value is checked by the timestamp parser,
  then padded by its length.
\<close>

definition pad_timestamp :: "string \<Rightarrow> string \<Rightarrow> string" where
  "pad_timestamp time s =
     (if length s < 19 then take 10 s @ time
      else if length s < 20 then replace_space_T s @ ''Z''
      else s)"

definition normalize_timestamp ::
  "('f, 'o) env \<Rightarrow> string \<Rightarrow> string \<Rightarrow> params \<Rightarrow> error + params" where
  "normalize_timestamp env key time ps =
     (case map_of ps key of
        None \<Rightarrow> Inr ps
      | Some v \<Rightarrow>
          (case parse_param_timestamp env v of
             Some e \<Rightarrow> Inl e
           | None \<Rightarrow>
               (case v of
                  PStr s \<Rightarrow>
                    Inr (AList.update key (PStr (pad_timestamp time s)) ps)
                | _ \<Rightarrow> Inl TypeError)))"

definition normalize_timestamps :: "('f, 'o) env \<Rightarrow> params \<Rightarrow> error + params" where
  "normalize_timestamps env ps =
     (case normalize_timestamp env ''start'' ''T00:00:00Z'' ps of
        Inl e \<Rightarrow> Inl e
      | Inr ps1 \<Rightarrow> normalize_timestamp env ''end'' ''T23:59:59Z'' ps1)"

definition stations_observations ::
  "('f, 'o) env \<Rightarrow> string \<Rightarrow> params \<Rightarrow> json fetched" where
  "stations_observations env station_id ps0 =
     (if station_id = [] then (Inl StationIdRequired, [])
      else if has_key ''recordId'' ps0 \<and> has_key ''current'' ps0
        then (Inl CurrentAndRecordId, [])
      else
        (case normalize_timestamps env ps0 of
           Inl e \<Rightarrow> (Inl e, [])
         | Inr ps \<Rightarrow>
             (let request_uri = ''/stations/'' @ station_id @ ''/observations'' in
              if dict_len ps > 0 then
                (case map_of ps ''recordId'' of
                   Some record_id \<Rightarrow>
                     make_get_request env (JStr (request_uri @ ''/'' @ py_str record_id))
                 | None \<Rightarrow>
                     if has_key ''current'' ps
                       then make_get_request env (JStr (request_uri @ ''/current''))
                     else
                       (let request_uri2 =
                              (if dict_len ps > 1
                                 then request_uri @ ''?'' @ urlencode env ps
                               else request_uri)
                        in case make_get_request env (JStr request_uri2) of
                             (Inl e, reqs) \<Rightarrow> (Inl e, reqs)
                           | (Inr observations, reqs) \<Rightarrow>
                               (case py_in ''features'' observations of
                                  Inl e \<Rightarrow> (Inl e, reqs)
                                | Inr False \<Rightarrow> (Inl (FeaturesNotFound observations), reqs)
                                | Inr True \<Rightarrow> (py_getitem observations ''features'', reqs))))
              else make_get_request env (JStr (''/stations/'' @ station_id @ ''/observations'')))))"

section \<open>Active alerts\<close>

definition active_alerts :: "('f, 'o) env \<Rightarrow> bool \<Rightarrow> params \<Rightarrow> json fetched" where
  "active_alerts env count ps =
     (if count then make_get_request env (JStr ''/alerts/count'')
      else
        (case map_of ps ''zone_id'' of
           Some zone_id \<Rightarrow>
             make_get_request env (JStr (''/alerts/active/zone/'' @ py_str zone_id))
         | None \<Rightarrow>
             (case map_of ps ''area'' of
                Some area \<Rightarrow>
                  make_get_request env (JStr (''/alerts/active/area/'' @ py_str area))
              | None \<Rightarrow>
                  (case map_of ps ''region'' of
                     Some region \<Rightarrow>
                       make_get_request env (JStr (''/alerts/active/region/'' @ py_str region))
                   | None \<Rightarrow> make_get_request env (JStr ''/alerts/active'')))))"

section \<open>Observations by coordinate\<close>

text \<open>Lines 150 to 154: the keyword arguments passed on to \<^verbatim>\<open>stations_observations\<close>.\<close>

definition observation_params :: "pyval \<Rightarrow> pyval \<Rightarrow> params" where
  "observation_params start end_time =
     (if truthy start then [(''start'', start)] else []) @
     (if truthy end_time then [(''end'', end_time)] else [])"

definition points :: "('f, 'o) env \<Rightarrow> string \<Rightarrow> bool \<Rightarrow> json fetched" where
  "points env point stations =
     (if stations then make_get_request env (JStr (''/points/'' @ point @ ''/stations''))
      else make_get_request env (JStr (''/points/'' @ point)))"

text \<open>
  Lines 156 to 163: the points document of the rounded coordinate, the check of its
  \<^verbatim>\<open>properties\<close> and \<^verbatim>\<open>observationStations\<close>, and the station list fetched from
  that link.
\<close>

definition observation_stations :: "('f, 'o) env \<Rightarrow> 'f \<Rightarrow> 'f \<Rightarrow> json fetched" where
  "observation_stations env lat lon =
     (case points env
             (str_float env (round4 env lat) @ '','' @ str_float env (round4 env lon)) False of
        (Inl e, reqs) \<Rightarrow> (Inl e, reqs)
      | (Inr points_res, reqs) \<Rightarrow>
          (case py_in ''properties'' points_res of
             Inl e \<Rightarrow> (Inl e, reqs)
           | Inr False \<Rightarrow> (Inl NoObservationStations, reqs)
           | Inr True \<Rightarrow>
               (case py_getitem points_res ''properties'' of
                  Inl e \<Rightarrow> (Inl e, reqs)
                | Inr props \<Rightarrow>
                    (case py_in ''observationStations'' props of
                       Inl e \<Rightarrow> (Inl e, reqs)
                     | Inr False \<Rightarrow> (Inl NoObservationStations, reqs)
                     | Inr True \<Rightarrow>
                         (case py_getitem props ''observationStations'' of
                            Inl e \<Rightarrow> (Inl e, reqs)
                          | Inr uri \<Rightarrow>
                              (case make_get_request env uri of
                                 (Inl e, reqs2) \<Rightarrow> (Inl e, reqs @ reqs2)
                               | (Inr doc, reqs2) \<Rightarrow>
                                   (py_getitem doc ''observationStations'', reqs @ reqs2)))))))"

text \<open>Lines 175 and 176: one value yielded for each observation, until one raises.\<close>

fun yield_properties :: "json list \<Rightarrow> json list \<times> error option" where
  "yield_properties [] = ([], None)"
| "yield_properties (observation # rest) =
     (case py_get observation ''properties'' of
        Inl e \<Rightarrow> ([], Some e)
      | Inr v \<Rightarrow> (case yield_properties rest of (ys, e) \<Rightarrow> (v # ys, e)))"

text \<open>
  Lines 165 to 176: the loop over \<^verbatim>\<open>enumerate(stations)\<close>, from position \<open>index\<close> on.
\<close>

fun stations_loop ::
  "('f, 'o) env \<Rightarrow> params \<Rightarrow> int \<Rightarrow> nat \<Rightarrow> json list \<Rightarrow> stream" where
  "stations_loop env ps num_of_stations index [] = ([], None, [])"
| "stations_loop env ps num_of_stations index (station # rest) =
     (if num_of_stations > 0 \<and> num_of_stations \<le> int index then ([], None, [])
      else
        (case split_last station of
           Inl e \<Rightarrow> ([], Some e, [])
         | Inr station_id \<Rightarrow>
             (case stations_observations env station_id ps of
                (Inl e, reqs) \<Rightarrow> ([], Some e, reqs)
              | (Inr response, reqs) \<Rightarrow>
                  (case (if is_dict response then py_getitem response ''features''
                         else Inr response) of
                     Inl e \<Rightarrow> ([], Some e, reqs)
                   | Inr observations \<Rightarrow>
                       (case py_iter observations of
                          Inl e \<Rightarrow> ([], Some e, reqs)
                        | Inr obs \<Rightarrow>
                            (case yield_properties obs of
                               (ys, Some e) \<Rightarrow> (ys, Some e, reqs)
                             | (ys, None) \<Rightarrow>
                                 (case stations_loop env ps num_of_stations (Suc index) rest of
                                    (ys2, e2, reqs2) \<Rightarrow> (ys @ ys2, e2, reqs @ reqs2))))))))"

declare stations_loop.simps [simp del]

definition get_observations_by_lat_lon ::
  "('f, 'o) env \<Rightarrow> 'f \<Rightarrow> 'f \<Rightarrow> pyval \<Rightarrow> pyval \<Rightarrow> int \<Rightarrow> stream" where
  "get_observations_by_lat_lon env lat lon start end_time num_of_stations =
     (case observation_stations env lat lon of
        (Inl e, reqs) \<Rightarrow> ([], Some e, reqs)
      | (Inr stations, reqs) \<Rightarrow>
          (case py_iter stations of
             Inl e \<Rightarrow> ([], Some e, reqs)
           | Inr sts \<Rightarrow>
               (case stations_loop env (observation_params start end_time) num_of_stations 0 sts of
                  (ys, e, reqs2) \<Rightarrow> (ys, e, reqs @ reqs2))))"

section \<open>Forecasts\<close>

text \<open>
  The \<^verbatim>\<open>data_type\<close> argument: a list, or one value that lines 86 and 223 wrap in a list.
\<close>

datatype data_type = Single pyval | Several "pyval list"

definition as_list :: "data_type \<Rightarrow> pyval list" where
  "as_list data_type = (case data_type of Single d \<Rightarrow> [d] | Several ds \<Rightarrow> ds)"

text \<open>\<^verbatim>\<open>dtype in ["hourly", "grid", None]\<close>.\<close>

definition known_dtype :: "pyval \<Rightarrow> bool" where
  "known_dtype dtype = (dtype = PStr ''hourly'' \<or> dtype = PStr ''grid'' \<or> dtype = PNone)"

text \<open>\<^verbatim>\<open>doc[k1][k2]\<close>.\<close>

definition py_getitem2 :: "json \<Rightarrow> string \<Rightarrow> string \<Rightarrow> error + json" where
  "py_getitem2 doc k1 k2 =
     (case py_getitem doc k1 of Inl e \<Rightarrow> Inl e | Inr inner \<Rightarrow> py_getitem inner k2)"

text \<open>Lines 235 to 239: the link of the points document to fetch for one data type.\<close>

definition forecast_uri :: "json \<Rightarrow> pyval \<Rightarrow> error + json" where
  "forecast_uri points_doc dtype =
     (case py_getitem2 points_doc ''properties'' ''forecast'' of
        Inl e \<Rightarrow> Inl e
      | Inr uri \<Rightarrow>
          if dtype = PStr ''hourly'' then py_getitem2 points_doc ''properties'' ''forecastHourly''
          else if dtype = PStr ''grid'' then py_getitem2 points_doc ''properties'' ''forecastGridData''
          else Inr uri)"

text \<open>Lines 233 to 243: one fetch for each data type, in order.\<close>

fun fetch_forecasts :: "('f, 'o) env \<Rightarrow> json \<Rightarrow> pyval list \<Rightarrow> json list fetched" where
  "fetch_forecasts env points_doc [] = (Inr [], [])"
| "fetch_forecasts env points_doc (dtype # rest) =
     (case forecast_uri points_doc dtype of
        Inl e \<Rightarrow> (Inl e, [])
      | Inr uri \<Rightarrow>
          (case make_get_request env uri of
             (Inl e, reqs) \<Rightarrow> (Inl e, reqs)
           | (Inr response, reqs) \<Rightarrow>
               (case fetch_forecasts env points_doc rest of
                  (Inl e, reqs2) \<Rightarrow> (Inl e, reqs @ reqs2)
                | (Inr responses, reqs2) \<Rightarrow> (Inr (response # responses), reqs @ reqs2))))"

definition points_forecast ::
  "('f, 'o) env \<Rightarrow> 'f \<Rightarrow> 'f \<Rightarrow> data_type \<Rightarrow> json list fetched" where
  "points_forecast env lat long data_type =
     (let dtypes = as_list data_type in
      if \<not> list_all known_dtype dtypes then (Inl AssertionError, [])
      else
        (case make_get_request env
                (JStr (''/points/'' @ str_float env lat @ '','' @ str_float env long)) of
           (Inl e, reqs) \<Rightarrow> (Inl e, reqs)
         | (Inr points_doc, reqs) \<Rightarrow>
             (case fetch_forecasts env points_doc dtypes of
                (r, reqs2) \<Rightarrow> (r, reqs @ reqs2))))"

definition get_lat_lon_by_postalcode_country ::
  "('f, 'o) env \<Rightarrow> string \<Rightarrow> string \<Rightarrow> bool \<Rightarrow> error + 'f \<times> 'f \<times> 'o option" where
  "get_lat_lon_by_postalcode_country env postal_code country return_result_object =
     (if country = ''US'' then
        (let zipcode = by_zipcode env postal_code in
         case (zipcode_lat env zipcode, zipcode_lng env zipcode) of
           (Some lat, Some lng) \<Rightarrow>
             Inr (lat, lng, if return_result_object then Some zipcode else None)
         | _ \<Rightarrow> Inl InvalidZipCodeError)
      else
        (let query_results = query_postal_code env country postal_code in
         if isnan env (latitude env query_results) \<or> isnan env (longitude env query_results)
           then Inl InvalidZipCodeError
         else Inr (latitude env query_results, longitude env query_results,
                   if return_result_object then Some query_results else None)))"

text \<open>
  Line 93: \<^verbatim>\<open>'status' in res and res['status'] == 503 and 'detail' in res\<close>.
\<close>

definition status_503 :: "json \<Rightarrow> error + bool" where
  "status_503 res =
     (case py_in ''status'' res of
        Inl e \<Rightarrow> Inl e
      | Inr False \<Rightarrow> Inr False
      | Inr True \<Rightarrow>
          (case py_getitem res ''status'' of
             Inl e \<Rightarrow> Inl e
           | Inr status \<Rightarrow> if eq_503 status then py_in ''detail'' res else Inr False))"

text \<open>Lines 93 to 105: the check and the projection of one fetched document.\<close>

definition forecast_result :: "pyval \<Rightarrow> json \<Rightarrow> error + json" where
  "forecast_result dtype res =
     (case status_503 res of
        Inl e \<Rightarrow> Inl e
      | Inr True \<Rightarrow>
          (case py_getitem res ''status'' of
             Inl e \<Rightarrow> Inl e
           | Inr status \<Rightarrow>
               (case py_getitem res ''detail'' of
                  Inl e \<Rightarrow> Inl e
                | Inr detail \<Rightarrow> Inl (StatusError status detail)))
      | Inr False \<Rightarrow>
          (case py_in ''properties'' res of
             Inl e \<Rightarrow> Inl e
           | Inr False \<Rightarrow> Inl PropertiesNotFound
           | Inr True \<Rightarrow>
               (case py_getitem res ''properties'' of
                  Inl e \<Rightarrow> Inl e
                | Inr props \<Rightarrow>
                    (case py_in ''periods'' props of
                       Inl e \<Rightarrow> Inl e
                     | Inr has_periods \<Rightarrow>
                         if \<not> has_periods \<and> dtype \<noteq> PStr ''grid'' then Inl PeriodsNotFound
                         else if dtype = PStr ''grid'' then Inr props
                         else py_getitem props ''periods''))))"

text \<open>Lines 91 to 105: the loop over \<^verbatim>\<open>zip(data_type, results)\<close>.\<close>

fun forecast_results :: "(pyval \<times> json) list \<Rightarrow> error + json list" where
  "forecast_results [] = Inr []"
| "forecast_results ((dtype, res) # rest) =
     (case forecast_result dtype res of
        Inl e \<Rightarrow> Inl e
      | Inr v \<Rightarrow>
          (case forecast_results rest of
             Inl e \<Rightarrow> Inl e
           | Inr to_return \<Rightarrow> Inr (v # to_return)))"

definition get_forecasts ::
  "('f, 'o) env \<Rightarrow> string \<Rightarrow> string \<Rightarrow> data_type \<Rightarrow> bool \<Rightarrow> (json list \<times> 'o option) fetched"
  where
  "get_forecasts env postal_code country data_type return_result_object =
     (case get_lat_lon_by_postalcode_country env postal_code country return_result_object of
        Inl e \<Rightarrow> (Inl e, [])
      | Inr (lat, lon, result_object) \<Rightarrow>
          (let dtypes = as_list data_type in
           case points_forecast env lat lon (Several dtypes) of
             (Inl e, reqs) \<Rightarrow> (Inl e, reqs)
           | (Inr results, reqs) \<Rightarrow>
               (case forecast_results (zip dtypes results) of
                  Inl e \<Rightarrow> (Inl e, reqs)
                | Inr to_return \<Rightarrow> (Inr (to_return, result_object), reqs))))"

section \<open>Example collaborators\<close>

text \<open>
  A transport that answers from a table of documents, a timestamp parser that accepts
  the three layouts of the docstrings, \<^verbatim>\<open>urlencode\<close> with \<^verbatim>\<open>quote_plus\<close>, and
  the float and geocoder operations tabulated at the values used below.
\<close>

definition table_transport :: "(string \<times> json) list \<Rightarrow> json \<Rightarrow> error + json" where
  "table_transport tbl uri =
     (case uri of
        JStr s \<Rightarrow>
          (case map_of tbl s of
             Some doc \<Rightarrow> Inr doc
           | None \<Rightarrow> Inl (CollaboratorError ''404''))
      | _ \<Rightarrow> Inl TypeError)"

definition is_digit :: "char \<Rightarrow> bool" where
  "is_digit c = (48 \<le> (of_char c :: nat) \<and> (of_char c :: nat) \<le> 57)"

definition matches_layout :: "string \<Rightarrow> string \<Rightarrow> bool" where
  "matches_layout layout s =
     list_all2 (\<lambda>l c. if l = CHR ''d'' then is_digit c else c = l) layout s"

definition example_parse_param_timestamp :: "pyval \<Rightarrow> error option" where
  "example_parse_param_timestamp v =
     (case v of
        PStr s \<Rightarrow>
          (if matches_layout ''dddd-dd-ddTdd:dd:ddZ'' s \<or> matches_layout ''dddd-dd-dd'' s
              \<or> matches_layout ''dddd-dd-dd dd:dd:dd'' s
             then None
           else Some (CollaboratorError ''Error: start and end must have this format''))
      | _ \<Rightarrow> Some TypeError)"

definition hex_digit :: "nat \<Rightarrow> char" where
  "hex_digit n = (if n < 10 then char_of (48 + n) else char_of (55 + n))"

definition quote_plus :: "string \<Rightarrow> string" where
  "quote_plus s =
     concat (map (\<lambda>c.
       (let n = (of_char c :: nat) in
        if (48 \<le> n \<and> n \<le> 57) \<or> (65 \<le> n \<and> n \<le> 90) \<or> (97 \<le> n \<and> n \<le> 122)
            \<or> c \<in> set ''_.-~'' then [c]
        else if c = CHR '' '' then ''+''
        else [CHR ''%'', hex_digit (n div 16), hex_digit (n mod 16)])) s)"

fun join_amp :: "string list \<Rightarrow> string" where
  "join_amp [] = []"
| "join_amp [x] = x"
| "join_amp (x # y # rest) = x @ ''&'' @ join_amp (y # rest)"

definition example_urlencode :: "params \<Rightarrow> string" where
  "example_urlencode ps =
     join_amp (map (\<lambda>(k, v). quote_plus k @ ''='' @ quote_plus (py_str v)) ps)"

definition example_round4 :: "rat \<Rightarrow> rat" where
  "example_round4 x =
     (if x = 40.74846 then 40.7485 else if x = - 73.98567 then - 73.9857 else x)"

definition example_str_float :: "rat \<Rightarrow> string" where
  "example_str_float x =
     (if x = 40.75 then ''40.75'' else if x = - 73.99 then ''-73.99''
      else if x = 40.7485 then ''40.7485'' else if x = - 73.9857 then ''-73.9857''
      else if x = 40.74846 then ''40.74846'' else if x = - 73.98567 then ''-73.98567''
      else ''0.0'')"

definition example_by_zipcode :: "string \<Rightarrow> rat option \<times> rat option" where
  "example_by_zipcode postal_code =
     (if postal_code = ''10001'' then (Some 40.75, Some (- 73.99)) else (None, None))"

definition table_env ::
  "(string \<times> json) list \<Rightarrow> (rat, rat option \<times> rat option) env" where
  "table_env tbl =
     \<lparr> transport = table_transport tbl,
       parse_param_timestamp = example_parse_param_timestamp,
       urlencode = example_urlencode,
       round4 = example_round4,
       str_float = example_str_float,
       by_zipcode = example_by_zipcode,
       zipcode_lat = fst,
       zipcode_lng = snd,
       query_postal_code = (\<lambda>country postal_code. (Some 40.75, Some (- 73.99))),
       latitude = (\<lambda>r. case fst r of Some x \<Rightarrow> x | None \<Rightarrow> 0),
       longitude = (\<lambda>r. case snd r of Some x \<Rightarrow> x | None \<Rightarrow> 0),
       isnan = (\<lambda>x. False) \<rparr>"

definition example_points_doc :: json where
  "example_points_doc =
     JObj [(''properties'', JObj
       [(''forecast'', JStr ''https://api.weather.gov/gridpoints/OKX/33,37/forecast''),
        (''forecastHourly'',
           JStr ''https://api.weather.gov/gridpoints/OKX/33,37/forecast/hourly''),
        (''forecastGridData'', JStr ''https://api.weather.gov/gridpoints/OKX/33,37''),
        (''observationStations'',
           JStr ''https://api.weather.gov/gridpoints/OKX/33,37/stations'')])]"

definition example_stations_doc :: json where
  "example_stations_doc =
     JObj [(''observationStations'',
       JList [JStr ''https://api.weather.gov/stations/KNYC'',
              JStr ''https://api.weather.gov/stations/KLGA''])]"

definition knyc_observations :: json where
  "knyc_observations =
     JObj [(''features'',
       JList [JObj [(''properties'', JObj [(''temperature'', JInt 21)])],
              JObj [(''properties'', JObj [(''temperature'', JInt 20)])]])]"

definition klga_observations :: json where
  "klga_observations =
     JObj [(''features'', JList [JObj [(''properties'', JObj [(''temperature'', JInt 22)])]])]"

definition example_forecast_doc :: json where
  "example_forecast_doc =
     JObj [(''properties'', JObj
       [(''periods'', JList [JObj [(''name'', JStr ''Today''), (''temperature'', JInt 71)]])])]"

definition example_hourly_doc :: json where
  "example_hourly_doc =
     JObj [(''properties'', JObj
       [(''periods'', JList [JObj [(''number'', JInt 1), (''temperature'', JInt 68)]])])]"

definition example_grid_doc :: json where
  "example_grid_doc =
     JObj [(''properties'', JObj [(''temperature'', JObj [(''uom'', JStr ''wmoUnit:degC'')])])]"

definition knyc_current :: json where
  "knyc_current = JObj [(''properties'', JObj [(''temperature'', JInt 21)])]"

definition example_table :: "(string \<times> json) list" where
  "example_table =
     [(''/points/40.75,-73.99'', example_points_doc),
      (''https://api.weather.gov/gridpoints/OKX/33,37/stations'', example_stations_doc),
      (''/stations/KNYC/observations'', knyc_observations),
      (''/stations/KLGA/observations'', klga_observations),
      (''/stations/KNYC/observations/current'', knyc_current),
      (''https://api.weather.gov/gridpoints/OKX/33,37/forecast'', example_forecast_doc),
      (''https://api.weather.gov/gridpoints/OKX/33,37/forecast/hourly'', example_hourly_doc),
      (''https://api.weather.gov/gridpoints/OKX/33,37'', example_grid_doc)]"

definition example_env :: "(rat, rat option \<times> rat option) env" where
  "example_env = table_env example_table"




text \<open>A points document without \<^verbatim>\<open>properties\<close>.\<close>

definition bare_points_doc :: json where
  "bare_points_doc =
     JObj [(''title'', JStr ''Data Unavailable For Requested Point''), (''status'', JInt 404)]"

definition bare_env :: "(rat, rat option \<times> rat option) env" where
  "bare_env = table_env [(''/points/40.75,-73.99'', bare_points_doc)]"

section \<open>The example collaborators, evaluated\<close>




lemma example_observation_stations:
  "observation_stations example_env 40.75 (- 73.99)
     = (Inr (JList [JStr ''https://api.weather.gov/stations/KNYC'',
                    JStr ''https://api.weather.gov/stations/KLGA'']),
        [JStr ''/points/40.75,-73.99'',
         JStr ''https://api.weather.gov/gridpoints/OKX/33,37/stations''])"
  by code_simp



lemma example_forecasts:
  "get_forecasts example_env ''10001'' ''US''
       (Several [PStr ''hourly'', PStr ''grid'', PNone]) False
     = (Inr ([JList [JObj [(''number'', JInt 1), (''temperature'', JInt 68)]],
              JObj [(''temperature'', JObj [(''uom'', JStr ''wmoUnit:degC'')])],
              JList [JObj [(''name'', JStr ''Today''), (''temperature'', JInt 71)]]], None),
        [JStr ''/points/40.75,-73.99'',
         JStr ''https://api.weather.gov/gridpoints/OKX/33,37/forecast/hourly'',
         JStr ''https://api.weather.gov/gridpoints/OKX/33,37'',
         JStr ''https://api.weather.gov/gridpoints/OKX/33,37/forecast''])"
  by code_simp




section \<open>Active alerts: the count path\<close>

text \<open>
  C8. With \<^verbatim>\<open>count=True\<close>, \<^verbatim>\<open>active_alerts\<close> sends exactly one request, whatever the
  other parameters are, and its path is \<^verbatim>\<open>/alerts/count\<close>: not the
  \<^verbatim>\<open>/alerts/active/count\<close> that the docstring of the method names.
\<close>

theorem active_alerts_count_path:
  "active_alerts env True ps
     = (transport env (JStr ''/alerts/count''), [JStr ''/alerts/count''])
   \<and> JStr ''/alerts/count'' \<noteq> JStr ''/alerts/active/count''"
  by (simp add: active_alerts_def make_get_request_def)

section \<open>Station observations: conflicting modes\<close>

text \<open>
  C6. For a non-empty station id and keyword arguments that hold both \<^verbatim>\<open>current\<close>
  and \<^verbatim>\<open>recordId\<close>, \<^verbatim>\<open>stations_observations\<close> raises "Cannot have both 'current' and
  'recordId'" and sends no request, whatever the values and the other arguments are.
\<close>

theorem stations_observations_current_and_recordId:
  assumes "station_id \<noteq> []"
    and "has_key ''current'' ps"
    and "has_key ''recordId'' ps"
  shows "stations_observations env station_id ps = (Inl CurrentAndRecordId, [])"
  using assms by (simp add: stations_observations_def)

theorem stations_observations_current_and_recordId_witness:
  "stations_observations example_env ''KNYC''
     [(''start'', PStr ''yesterday''), (''current'', PBool False),
      (''recordId'', PStr ''2020-01-01T12:00:00+00:00'')]
   = (Inl CurrentAndRecordId, [])"
  using stations_observations_current_and_recordId
    [of "''KNYC''"
        "[(''start'', PStr ''yesterday''), (''current'', PBool False),
          (''recordId'', PStr ''2020-01-01T12:00:00+00:00'')]" example_env]
  by (simp add: has_key_def)

section \<open>Timestamp normalization\<close>

lemma normalize_timestamp_keys:
  "normalize_timestamp env key time ps = Inr ps' \<Longrightarrow> map fst ps' = map fst ps"
  unfolding normalize_timestamp_def
  apply (cases "map_of ps key")
   apply simp
  subgoal for v
    apply (cases "parse_param_timestamp env v"; cases v)
           apply (auto simp: update_keys dest: map_of_SomeD)
    apply (metis fst_conv image_eqI map_of_SomeD)
    done
  done

lemma normalize_timestamp_lookup:
  "normalize_timestamp env key time ps = Inr ps' \<Longrightarrow>
   map_of ps' k =
     (if k = key then (case map_of ps key of Some (PStr s) \<Rightarrow> Some (PStr (pad_timestamp time s)) | x \<Rightarrow> x)
      else map_of ps k)"
  unfolding normalize_timestamp_def
  apply (cases "map_of ps key")
   apply simp
  subgoal for v
    by (cases "parse_param_timestamp env v"; cases v) (auto simp: update_conv')
  done

lemma normalize_timestamps_keys:
  assumes "normalize_timestamps env ps = Inr ps'"
  shows "map fst ps' = map fst ps"
proof -
  from assms obtain ps1 where
    a: "normalize_timestamp env ''start'' ''T00:00:00Z'' ps = Inr ps1" and
    b: "normalize_timestamp env ''end'' ''T23:59:59Z'' ps1 = Inr ps'"
    by (auto simp: normalize_timestamps_def split: sum.splits)
  show ?thesis
    using normalize_timestamp_keys [OF a] normalize_timestamp_keys [OF b] by simp
qed



lemma normalize_timestamps_other:
  assumes "normalize_timestamps env ps = Inr ps'" and "k \<noteq> ''start''" and "k \<noteq> ''end''"
  shows "map_of ps' k = map_of ps k"
proof -
  from assms obtain ps1 where
    a: "normalize_timestamp env ''start'' ''T00:00:00Z'' ps = Inr ps1" and
    b: "normalize_timestamp env ''end'' ''T23:59:59Z'' ps1 = Inr ps'"
    by (auto simp: normalize_timestamps_def split: sum.splits)
  show ?thesis
    using normalize_timestamp_lookup [OF a, of k]
      normalize_timestamp_lookup [OF b, of k] assms(2,3) by simp
qed







section \<open>Station observations: what is returned\<close>

lemma stations_observations_no_params:
  "station_id \<noteq> [] \<Longrightarrow>
   stations_observations env station_id []
     = make_get_request env (JStr (''/stations/'' @ station_id @ ''/observations''))"
  by (simp add: stations_observations_def has_key_def normalize_timestamps_def
      normalize_timestamp_def dict_len_def)

lemma has_key_map_of: "has_key k ps \<longleftrightarrow> map_of ps k \<noteq> None"
  by (simp add: has_key_def map_of_eq_None_iff)

lemma dict_len_pos: "0 < dict_len ps \<longleftrightarrow> ps \<noteq> []"
  by (cases ps) (auto simp: dict_len_def)

lemma normalize_timestamps_has_key:
  "normalize_timestamps env ps = Inr ps' \<Longrightarrow> has_key k ps' = has_key k ps"
  by (simp add: has_key_def normalize_timestamps_keys)

lemma normalize_timestamps_dict_len:
  "normalize_timestamps env ps = Inr ps' \<Longrightarrow> dict_len ps' = dict_len ps"
  by (simp add: dict_len_def normalize_timestamps_keys)

lemma normalize_timestamps_nonempty:
  "normalize_timestamps env ps = Inr ps' \<Longrightarrow> ps' = [] \<longleftrightarrow> ps = []"
  using normalize_timestamps_keys [of env ps ps'] by (metis map_is_Nil_conv)

lemma stations_observations_record:
  assumes "station_id \<noteq> []" and "normalize_timestamps env ps = Inr ps'"
    and "map_of ps ''recordId'' = Some record_id" and "\<not> has_key ''current'' ps"
  shows "stations_observations env station_id ps
     = make_get_request env
         (JStr (''/stations/'' @ station_id @ ''/observations'' @ ''/'' @ py_str record_id))"
proof -
  have "map_of ps' ''recordId'' = Some record_id"
    using normalize_timestamps_other [OF assms(2), of "''recordId''"] assms(3) by simp
  moreover have "0 < dict_len ps'"
    using assms(3) normalize_timestamps_nonempty [OF assms(2)] by (auto simp: dict_len_pos)
  ultimately show ?thesis
    using assms by (simp add: stations_observations_def)
qed

lemma stations_observations_current:
  assumes "station_id \<noteq> []" and "normalize_timestamps env ps = Inr ps'"
    and "has_key ''current'' ps" and "\<not> has_key ''recordId'' ps"
  shows "stations_observations env station_id ps
     = make_get_request env (JStr (''/stations/'' @ station_id @ ''/observations'' @ ''/current''))"
proof -
  have "map_of ps' ''recordId'' = None"
    using normalize_timestamps_has_key [OF assms(2), of "''recordId''"] assms(4)
    by (simp add: has_key_map_of)
  moreover have "has_key ''current'' ps'"
    using normalize_timestamps_has_key [OF assms(2), of "''current''"] assms(3) by simp
  moreover have "0 < dict_len ps'"
    using assms(3) normalize_timestamps_nonempty [OF assms(2)]
    by (auto simp: dict_len_pos has_key_def)
  ultimately show ?thesis
    using assms by (simp add: stations_observations_def)
qed

lemma stations_observations_query:
  assumes "station_id \<noteq> []" and "normalize_timestamps env ps = Inr ps'"
    and "ps \<noteq> []" and "\<not> has_key ''recordId'' ps" and "\<not> has_key ''current'' ps"
    and "uri = (if 1 < dict_len ps
                  then ''/stations/'' @ station_id @ ''/observations'' @ ''?'' @ urlencode env ps'
                else ''/stations/'' @ station_id @ ''/observations'')"
  shows "stations_observations env station_id ps
     = (case transport env (JStr uri) of
          Inl e \<Rightarrow> Inl e
        | Inr doc \<Rightarrow>
            (case py_in ''features'' doc of
               Inl e \<Rightarrow> Inl e
             | Inr False \<Rightarrow> Inl (FeaturesNotFound doc)
             | Inr True \<Rightarrow> py_getitem doc ''features''),
        [JStr uri])"
proof -
  have "map_of ps' ''recordId'' = None"
    using normalize_timestamps_has_key [OF assms(2), of "''recordId''"] assms(4)
    by (simp add: has_key_map_of)
  moreover have "\<not> has_key ''current'' ps'"
    using normalize_timestamps_has_key [OF assms(2), of "''current''"] assms(5) by simp
  moreover have "0 < dict_len ps'"
    using assms(3) normalize_timestamps_nonempty [OF assms(2)] by (auto simp: dict_len_pos)
  moreover note normalize_timestamps_dict_len [OF assms(2)]
  ultimately show ?thesis
    using assms(1,2,4,5,6)
    by (auto simp: stations_observations_def make_get_request_def
        split: sum.splits bool.splits)
qed

text \<open>
  C10. What \<^verbatim>\<open>stations_observations\<close> returns depends on the keyword arguments. With
  none, with \<^verbatim>\<open>recordId\<close> and with \<^verbatim>\<open>current\<close> it is the outcome of the one request
  as the transport gives it, with no look at \<^verbatim>\<open>features\<close>. With other arguments only,
  the answer is checked: without \<^verbatim>\<open>features\<close> the call raises the document, with it
  the call returns the value of \<^verbatim>\<open>features\<close>. The query string is sent when there are
  two arguments or more.
\<close>

theorem stations_observations_return_shape:
  assumes "station_id \<noteq> []" and "normalize_timestamps env ps = Inr ps'"
  shows "(ps = [] \<longrightarrow>
            stations_observations env station_id ps
              = make_get_request env (JStr (''/stations/'' @ station_id @ ''/observations'')))
       \<and> (\<forall>record_id. map_of ps ''recordId'' = Some record_id \<and> \<not> has_key ''current'' ps \<longrightarrow>
            stations_observations env station_id ps
              = make_get_request env
                  (JStr (''/stations/'' @ station_id @ ''/observations'' @ ''/''
                         @ py_str record_id)))
       \<and> (has_key ''current'' ps \<and> \<not> has_key ''recordId'' ps \<longrightarrow>
            stations_observations env station_id ps
              = make_get_request env
                  (JStr (''/stations/'' @ station_id @ ''/observations'' @ ''/current'')))
       \<and> (ps \<noteq> [] \<and> \<not> has_key ''recordId'' ps \<and> \<not> has_key ''current'' ps \<longrightarrow>
            (let uri = (if 1 < dict_len ps
                          then ''/stations/'' @ station_id @ ''/observations'' @ ''?''
                               @ urlencode env ps'
                        else ''/stations/'' @ station_id @ ''/observations'')
             in stations_observations env station_id ps
                = (case transport env (JStr uri) of
                     Inl e \<Rightarrow> Inl e
                   | Inr doc \<Rightarrow>
                       (case py_in ''features'' doc of
                          Inl e \<Rightarrow> Inl e
                        | Inr False \<Rightarrow> Inl (FeaturesNotFound doc)
                        | Inr True \<Rightarrow> py_getitem doc ''features''),
                   [JStr uri])))"
proof (intro conjI impI allI)
  assume "ps = []"
  then show "stations_observations env station_id ps
      = make_get_request env (JStr (''/stations/'' @ station_id @ ''/observations''))"
    using assms(1) by (simp add: stations_observations_no_params)
next
  fix record_id
  assume "map_of ps ''recordId'' = Some record_id \<and> \<not> has_key ''current'' ps"
  then show "stations_observations env station_id ps
      = make_get_request env
          (JStr (''/stations/'' @ station_id @ ''/observations'' @ ''/'' @ py_str record_id))"
    using stations_observations_record [OF assms] by simp
next
  assume "has_key ''current'' ps \<and> \<not> has_key ''recordId'' ps"
  then show "stations_observations env station_id ps
      = make_get_request env
          (JStr (''/stations/'' @ station_id @ ''/observations'' @ ''/current''))"
    using stations_observations_current [OF assms] by simp
next
  assume "ps \<noteq> [] \<and> \<not> has_key ''recordId'' ps \<and> \<not> has_key ''current'' ps"
  then show "let uri = (if 1 < dict_len ps
                          then ''/stations/'' @ station_id @ ''/observations'' @ ''?''
                               @ urlencode env ps'
                        else ''/stations/'' @ station_id @ ''/observations'')
             in stations_observations env station_id ps
                = (case transport env (JStr uri) of
                     Inl e \<Rightarrow> Inl e
                   | Inr doc \<Rightarrow>
                       (case py_in ''features'' doc of
                          Inl e \<Rightarrow> Inl e
                        | Inr False \<Rightarrow> Inl (FeaturesNotFound doc)
                        | Inr True \<Rightarrow> py_getitem doc ''features''),
                   [JStr uri])"
    unfolding Let_def using stations_observations_query [OF assms] by blast
qed

theorem stations_observations_return_shape_witness:
  "stations_observations example_env ''KNYC'' []
     = (Inr knyc_observations, [JStr ''/stations/KNYC/observations''])
   \<and> stations_observations example_env ''KNYC'' [(''current'', PBool True)]
     = (Inr knyc_current, [JStr ''/stations/KNYC/observations/current''])
   \<and> stations_observations example_env ''KNYC'' [(''limit'', PInt 1)]
     = (Inr (JList [JObj [(''properties'', JObj [(''temperature'', JInt 21)])],
                    JObj [(''properties'', JObj [(''temperature'', JInt 20)])]]),
        [JStr ''/stations/KNYC/observations''])"
proof -
  have station: "''KNYC'' \<noteq> []" by simp
  have n0: "normalize_timestamps example_env [] = Inr []"
    and n1: "normalize_timestamps example_env [(''current'', PBool True)]
               = Inr [(''current'', PBool True)]"
    and n2: "normalize_timestamps example_env [(''limit'', PInt 1)] = Inr [(''limit'', PInt 1)]"
    by (simp_all add: normalize_timestamps_def normalize_timestamp_def)
  have t0: "transport example_env (JStr ''/stations/KNYC/observations'') = Inr knyc_observations"
    and t1: "transport example_env (JStr ''/stations/KNYC/observations/current'')
               = Inr knyc_current"
    by (simp_all add: example_env_def table_env_def table_transport_def example_table_def)
  have "stations_observations example_env ''KNYC'' []
      = (Inr knyc_observations, [JStr ''/stations/KNYC/observations''])"
    using stations_observations_return_shape [OF station n0] t0
    by (simp add: make_get_request_def)
  moreover have "stations_observations example_env ''KNYC'' [(''current'', PBool True)]
      = (Inr knyc_current, [JStr ''/stations/KNYC/observations/current''])"
    using stations_observations_return_shape [OF station n1] t1
    by (simp add: make_get_request_def has_key_def)
  moreover have "stations_observations example_env ''KNYC'' [(''limit'', PInt 1)]
     = (Inr (JList [JObj [(''properties'', JObj [(''temperature'', JInt 21)])],
                    JObj [(''properties'', JObj [(''temperature'', JInt 20)])]]),
        [JStr ''/stations/KNYC/observations''])"
    using stations_observations_return_shape [OF station n2] t0
    by (simp add: has_key_def dict_len_def knyc_observations_def py_in_def py_getitem_def)
  ultimately show ?thesis by simp
qed

section \<open>The observation stream and the number of stations\<close>

lemma stations_observations_requests:
  assumes "stations_observations env station_id ps = (r, reqs)"
  shows "length reqs \<le> 1 \<and> ((\<exists>v. r = Inr v) \<longrightarrow> length reqs = 1)"
  using assms
  unfolding stations_observations_def make_get_request_def Let_def
  by (auto split: if_splits sum.splits option.splits bool.splits prod.splits)




lemma stations_loop_unbounded:
  assumes "n \<le> 0" and "m \<le> 0"
  shows "stations_loop env ps n i sts = stations_loop env ps m j sts"
proof (induction sts arbitrary: i j)
  case Nil
  show ?case by (simp add: stations_loop.simps)
next
  case (Cons station rest)
  have "stations_loop env ps n (Suc i) rest = stations_loop env ps m (Suc j) rest"
    by (rule Cons.IH)
  then show ?case using assms
    by (auto simp: stations_loop.simps split: sum.splits prod.splits option.splits)
qed




lemma get_observations_by_lat_lon_loop:
  assumes "observation_stations env lat lon = (Inr stations, reqs0)"
    and "py_iter stations = Inr sts"
  shows "get_observations_by_lat_lon env lat lon start end_time n =
     (case stations_loop env (observation_params start end_time) n 0 sts of
        (ys, e, reqs2) \<Rightarrow> (ys, e, reqs0 @ reqs2))"
  using assms by (simp add: get_observations_by_lat_lon_def)




lemma stations_loop_prefix:
  assumes "n \<le> 0"
    and "list_all2 (\<lambda>station p. \<exists>s response observations obs.
            station = JStr s
          \<and> stations_observations env (last_segment s) ps = (Inr response, [snd p])
          \<and> (if is_dict response then py_getitem response ''features'' else Inr response)
              = Inr observations
          \<and> py_iter observations = Inr obs
          \<and> yield_properties obs = (fst p, None)) pre per"
  shows "stations_loop env ps n i (pre @ rest) =
     (case stations_loop env ps n (i + length pre) rest of
        (ys2, e2, reqs2) \<Rightarrow> (concat (map fst per) @ ys2, e2, map snd per @ reqs2))"
  using assms(2)
proof (induction arbitrary: i rule: list_all2_induct)
  case Nil
  show ?case by (simp split: prod.splits)
next
  case (Cons station pre p per)
  from Cons.hyps(1) obtain s response observations obs where
    st: "station = JStr s" and
    so: "stations_observations env (last_segment s) ps = (Inr response, [snd p])" and
    ob: "(if is_dict response then py_getitem response ''features'' else Inr response)
           = Inr observations" and
    it: "py_iter observations = Inr obs" and
    yp: "yield_properties obs = (fst p, None)"
    by blast
  have nb: "\<not> 0 < n" using assms(1) by simp
  have step: "stations_loop env ps n i (station # (pre @ rest)) =
      (case stations_loop env ps n (Suc i) (pre @ rest) of
         (ys2, e2, reqs2) \<Rightarrow> (fst p @ ys2, e2, [snd p] @ reqs2))"
    using nb st so ob it yp
    by (simp add: stations_loop.simps split_last_def)
  show ?case
    unfolding append_Cons step Cons.IH [of "Suc i"]
    by (simp split: prod.splits)
qed

lemma stations_loop_all_processed:
  assumes "n \<le> 0"
    and "stations_loop env ps n i sts = (ys, None, reqs)"
  shows "\<exists>per. list_all2 (\<lambda>station p. \<exists>s response observations obs.
            station = JStr s
          \<and> stations_observations env (last_segment s) ps = (Inr response, [snd p])
          \<and> (if is_dict response then py_getitem response ''features'' else Inr response)
              = Inr observations
          \<and> py_iter observations = Inr obs
          \<and> yield_properties obs = (fst p, None)) sts per
       \<and> ys = concat (map fst per) \<and> reqs = map snd per"
  using assms(2)
proof (induction sts arbitrary: i ys reqs)
  case Nil
  then show ?case by (simp add: stations_loop.simps)
next
  case (Cons station rest)
  have nb: "\<not> 0 < n" using assms(1) by simp
  from Cons.prems nb obtain s response rq observations obs vs ys2 reqs2 where
    st: "station = JStr s" and
    so: "stations_observations env (last_segment s) ps = (Inr response, rq)" and
    ob: "(if is_dict response then py_getitem response ''features'' else Inr response)
           = Inr observations" and
    it: "py_iter observations = Inr obs" and
    yp: "yield_properties obs = (vs, None)" and
    more: "stations_loop env ps n (Suc i) rest = (ys2, None, reqs2)" and
    ys: "ys = vs @ ys2" and reqs: "reqs = rq @ reqs2"
    by (auto simp: stations_loop.simps split_last_def
        split: sum.splits prod.splits option.splits json.splits)
  from stations_observations_requests [OF so] obtain req where rq: "rq = [req]"
    by (cases rq) auto
  from Cons.IH [OF more] obtain per where
    a: "list_all2 (\<lambda>station p. \<exists>s response observations obs.
            station = JStr s
          \<and> stations_observations env (last_segment s) ps = (Inr response, [snd p])
          \<and> (if is_dict response then py_getitem response ''features'' else Inr response)
              = Inr observations
          \<and> py_iter observations = Inr obs
          \<and> yield_properties obs = (fst p, None)) rest per" and
    b: "ys2 = concat (map fst per)" and c: "reqs2 = map snd per"
    by blast
  have "\<exists>s response observations obs.
            station = JStr s
          \<and> stations_observations env (last_segment s) ps = (Inr response, [snd (vs, req)])
          \<and> (if is_dict response then py_getitem response ''features'' else Inr response)
              = Inr observations
          \<and> py_iter observations = Inr obs
          \<and> yield_properties obs = (fst (vs, req), None)"
    using st so ob it yp rq by auto
  with a have "list_all2 (\<lambda>station p. \<exists>s response observations obs.
            station = JStr s
          \<and> stations_observations env (last_segment s) ps = (Inr response, [snd p])
          \<and> (if is_dict response then py_getitem response ''features'' else Inr response)
              = Inr observations
          \<and> py_iter observations = Inr obs
          \<and> yield_properties obs = (fst p, None)) (station # rest) ((vs, req) # per)"
    by simp
  moreover have "ys = concat (map fst ((vs, req) # per))" using ys b by simp
  moreover have "reqs = map snd ((vs, req) # per)" using reqs c rq by simp
  ultimately show ?case by blast
qed


lemma example_knyc_request:
  "stations_observations example_env (last_segment ''https://api.weather.gov/stations/KNYC'')
       (observation_params PNone PNone)
     = (Inr knyc_observations, [JStr ''/stations/KNYC/observations''])"
  by code_simp

lemma example_klga_request:
  "stations_observations example_env (last_segment ''https://api.weather.gov/stations/KLGA'')
       (observation_params PNone PNone)
     = (Inr klga_observations, [JStr ''/stations/KLGA/observations''])"
  by code_simp

lemma example_knyc_yields:
  "(if is_dict knyc_observations then py_getitem knyc_observations ''features''
    else Inr knyc_observations)
     = Inr (JList [JObj [(''properties'', JObj [(''temperature'', JInt 21)])],
                   JObj [(''properties'', JObj [(''temperature'', JInt 20)])]])"
  "py_iter (JList [JObj [(''properties'', JObj [(''temperature'', JInt 21)])],
                   JObj [(''properties'', JObj [(''temperature'', JInt 20)])]])
     = Inr [JObj [(''properties'', JObj [(''temperature'', JInt 21)])],
            JObj [(''properties'', JObj [(''temperature'', JInt 20)])]]"
  "yield_properties [JObj [(''properties'', JObj [(''temperature'', JInt 21)])],
                     JObj [(''properties'', JObj [(''temperature'', JInt 20)])]]
     = ([JObj [(''temperature'', JInt 21)], JObj [(''temperature'', JInt 20)]], None)"
  by code_simp+

lemma example_klga_yields:
  "(if is_dict klga_observations then py_getitem klga_observations ''features''
    else Inr klga_observations)
     = Inr (JList [JObj [(''properties'', JObj [(''temperature'', JInt 22)])]])"
  "py_iter (JList [JObj [(''properties'', JObj [(''temperature'', JInt 22)])]])
     = Inr [JObj [(''properties'', JObj [(''temperature'', JInt 22)])]]"
  "yield_properties [JObj [(''properties'', JObj [(''temperature'', JInt 22)])]]
     = ([JObj [(''temperature'', JInt 22)]], None)"
  by code_simp+

text \<open>
  C9. With \<open>num_of_stations = 0\<close> the stream is the one of any negative number, and it
  goes through the station list to its end. As long as the first stations of the list can
  be processed (each is a string, \<^verbatim>\<open>stations_observations\<close> answers for its last
  segment, and every observation of the answer has a \<^verbatim>\<open>get\<close>), the stream begins with
  their values and their requests, one request for each, in order; when that holds of the
  whole list, the stream is exactly that and ends without an exception. Conversely, a
  stream that ends without an exception has processed every station of the list in this
  way.
\<close>

theorem zero_stations_means_all:
  assumes "n < 0"
  shows "get_observations_by_lat_lon env lat lon start end_time 0
           = get_observations_by_lat_lon env lat lon start end_time n
       \<and> (\<forall>stations reqs0 pre rest per.
            observation_stations env lat lon = (Inr stations, reqs0)
            \<and> py_iter stations = Inr (pre @ rest)
            \<and> list_all2 (\<lambda>station p. \<exists>s response observations obs.
                  station = JStr s
                \<and> stations_observations env (last_segment s) (observation_params start end_time)
                    = (Inr response, [snd p])
                \<and> (if is_dict response then py_getitem response ''features''
                    else Inr response) = Inr observations
                \<and> py_iter observations = Inr obs
                \<and> yield_properties obs = (fst p, None)) pre per
            \<longrightarrow> (\<exists>ys2 e2 reqs2.
                  get_observations_by_lat_lon env lat lon start end_time 0
                    = (concat (map fst per) @ ys2, e2, reqs0 @ map snd per @ reqs2)
                \<and> (rest = [] \<longrightarrow> ys2 = [] \<and> e2 = None \<and> reqs2 = [])))
       \<and> (\<forall>stations reqs0 sts ys reqs.
            observation_stations env lat lon = (Inr stations, reqs0)
            \<and> py_iter stations = Inr sts
            \<and> get_observations_by_lat_lon env lat lon start end_time 0 = (ys, None, reqs)
            \<longrightarrow> (\<exists>per.
                  list_all2 (\<lambda>station p. \<exists>s response observations obs.
                      station = JStr s
                    \<and> stations_observations env (last_segment s)
                          (observation_params start end_time) = (Inr response, [snd p])
                    \<and> (if is_dict response then py_getitem response ''features''
                        else Inr response) = Inr observations
                    \<and> py_iter observations = Inr obs
                    \<and> yield_properties obs = (fst p, None)) sts per
                \<and> ys = concat (map fst per)
                \<and> reqs = reqs0 @ map snd per))"
proof (intro conjI allI impI)
  have "\<And>sts. stations_loop env (observation_params start end_time) 0 0 sts
      = stations_loop env (observation_params start end_time) n 0 sts"
    using assms by (intro stations_loop_unbounded) auto
  then show "get_observations_by_lat_lon env lat lon start end_time 0
      = get_observations_by_lat_lon env lat lon start end_time n"
    by (auto simp: get_observations_by_lat_lon_def split: prod.splits sum.splits)
next
  fix stations reqs0 pre rest per
  let ?ps = "observation_params start end_time"
  assume a: "observation_stations env lat lon = (Inr stations, reqs0)
            \<and> py_iter stations = Inr (pre @ rest)
            \<and> list_all2 (\<lambda>station p. \<exists>s response observations obs.
                  station = JStr s
                \<and> stations_observations env (last_segment s) ?ps = (Inr response, [snd p])
                \<and> (if is_dict response then py_getitem response ''features''
                    else Inr response) = Inr observations
                \<and> py_iter observations = Inr obs
                \<and> yield_properties obs = (fst p, None)) pre per"
  obtain ys2 e2 reqs2 where
    more: "stations_loop env ?ps 0 (0 + length pre) rest = (ys2, e2, reqs2)"
    by (cases "stations_loop env ?ps 0 (0 + length pre) rest")
  have z: "(0::int) \<le> 0" by simp
  from a have run: "stations_loop env ?ps 0 0 (pre @ rest)
      = (concat (map fst per) @ ys2, e2, map snd per @ reqs2)"
    using stations_loop_prefix [OF z, where pre = pre and env = env and ps = "?ps" and per = per
        and i = 0 and rest = rest] more by simp
  from a have "get_observations_by_lat_lon env lat lon start end_time 0
      = (concat (map fst per) @ ys2, e2, reqs0 @ map snd per @ reqs2)"
    using get_observations_by_lat_lon_loop [of env lat lon stations reqs0 "pre @ rest"
        start end_time 0] run
    by simp
  moreover have "rest = [] \<longrightarrow> ys2 = [] \<and> e2 = None \<and> reqs2 = []"
    using more by (auto simp: stations_loop.simps)
  ultimately show "\<exists>ys2 e2 reqs2.
      get_observations_by_lat_lon env lat lon start end_time 0
        = (concat (map fst per) @ ys2, e2, reqs0 @ map snd per @ reqs2)
      \<and> (rest = [] \<longrightarrow> ys2 = [] \<and> e2 = None \<and> reqs2 = [])"
    by blast
next
  fix stations reqs0 sts ys reqs
  let ?ps = "observation_params start end_time"
  assume a: "observation_stations env lat lon = (Inr stations, reqs0)
            \<and> py_iter stations = Inr sts
            \<and> get_observations_by_lat_lon env lat lon start end_time 0 = (ys, None, reqs)"
  then obtain reqs2 where r: "reqs = reqs0 @ reqs2"
    and run: "stations_loop env ?ps 0 0 sts = (ys, None, reqs2)"
    using get_observations_by_lat_lon_loop [of env lat lon stations reqs0 sts start end_time 0]
    by (auto split: prod.splits)
  have z: "(0::int) \<le> 0" by simp
  from stations_loop_all_processed [OF z run] r
  show "\<exists>per.
      list_all2 (\<lambda>station p. \<exists>s response observations obs.
          station = JStr s
        \<and> stations_observations env (last_segment s) ?ps = (Inr response, [snd p])
        \<and> (if is_dict response then py_getitem response ''features''
            else Inr response) = Inr observations
        \<and> py_iter observations = Inr obs
        \<and> yield_properties obs = (fst p, None)) sts per
      \<and> ys = concat (map fst per)
      \<and> reqs = reqs0 @ map snd per"
    by blast
qed

theorem zero_stations_means_all_witness:
  "get_observations_by_lat_lon example_env 40.75 (- 73.99) PNone PNone 0
     = get_observations_by_lat_lon example_env 40.75 (- 73.99) PNone PNone (- 1)
   \<and> get_observations_by_lat_lon example_env 40.75 (- 73.99) PNone PNone 0
     = ([JObj [(''temperature'', JInt 21)], JObj [(''temperature'', JInt 20)],
         JObj [(''temperature'', JInt 22)]], None,
        [JStr ''/points/40.75,-73.99'',
         JStr ''https://api.weather.gov/gridpoints/OKX/33,37/stations'',
         JStr ''/stations/KNYC/observations'',
         JStr ''/stations/KLGA/observations''])"
proof -
  let ?knyc = "JStr ''https://api.weather.gov/stations/KNYC''"
  let ?klga = "JStr ''https://api.weather.gov/stations/KLGA''"
  let ?per = "[([JObj [(''temperature'', JInt 21)], JObj [(''temperature'', JInt 20)]],
                JStr ''/stations/KNYC/observations''),
               ([JObj [(''temperature'', JInt 22)]], JStr ''/stations/KLGA/observations'')]"
  let ?P = "\<lambda>station p. \<exists>s response observations obs.
                  station = JStr s
                \<and> stations_observations example_env (last_segment s)
                      (observation_params PNone PNone) = (Inr response, [snd p])
                \<and> (if is_dict response then py_getitem response ''features''
                    else Inr response) = Inr observations
                \<and> py_iter observations = Inr obs
                \<and> yield_properties obs = (fst p, None)"
  have neg: "(- 1 :: int) < 0" by simp
  have it: "py_iter (JList [?knyc, ?klga]) = Inr ([?knyc, ?klga] @ [])"
    by (simp add: py_iter_def)
  have p1: "?P ?knyc (?per ! 0)"
    using example_knyc_request example_knyc_yields by simp
  have p2: "?P ?klga (?per ! 1)"
    using example_klga_request example_klga_yields by simp
  have all: "list_all2 ?P [?knyc, ?klga] ?per"
    using p1 p2 by simp
  note z = zero_stations_means_all [OF neg, of example_env "40.75" "- 73.99" PNone PNone]
  from z have first: "get_observations_by_lat_lon example_env 40.75 (- 73.99) PNone PNone 0
     = get_observations_by_lat_lon example_env 40.75 (- 73.99) PNone PNone (- 1)"
    by (rule conjunct1)
  from z have "\<forall>stations reqs0 pre rest per.
            observation_stations example_env 40.75 (- 73.99) = (Inr stations, reqs0)
            \<and> py_iter stations = Inr (pre @ rest)
            \<and> list_all2 ?P pre per
            \<longrightarrow> (\<exists>ys2 e2 reqs2.
                  get_observations_by_lat_lon example_env 40.75 (- 73.99) PNone PNone 0
                    = (concat (map fst per) @ ys2, e2, reqs0 @ map snd per @ reqs2)
                \<and> (rest = [] \<longrightarrow> ys2 = [] \<and> e2 = None \<and> reqs2 = []))"
    by blast
  with example_observation_stations it all
  have "\<exists>ys2 e2 reqs2.
      get_observations_by_lat_lon example_env 40.75 (- 73.99) PNone PNone 0
        = (concat (map fst ?per) @ ys2, e2,
           [JStr ''/points/40.75,-73.99'',
            JStr ''https://api.weather.gov/gridpoints/OKX/33,37/stations'']
           @ map snd ?per @ reqs2)
      \<and> (([]::json list) = [] \<longrightarrow> ys2 = [] \<and> e2 = None \<and> reqs2 = [])"
    by blast
  then have "get_observations_by_lat_lon example_env 40.75 (- 73.99) PNone PNone 0
     = ([JObj [(''temperature'', JInt 21)], JObj [(''temperature'', JInt 20)],
         JObj [(''temperature'', JInt 22)]], None,
        [JStr ''/points/40.75,-73.99'',
         JStr ''https://api.weather.gov/gridpoints/OKX/33,37/stations'',
         JStr ''/stations/KNYC/observations'',
         JStr ''/stations/KLGA/observations''])"
    by auto
  with first show ?thesis by (rule conjI)
qed

section \<open>Forecasts: order, upstream errors, the points document\<close>

lemma fetch_forecasts_aligned:
  assumes "fetch_forecasts env points_doc dtypes = (Inr results, reqs)"
  shows "list_all2 (\<lambda>dtype res. \<exists>uri. forecast_uri points_doc dtype = Inr uri
            \<and> transport env uri = Inr res) dtypes results"
  using assms
proof (induction dtypes arbitrary: results reqs)
  case Nil
  then show ?case by simp
next
  case (Cons dtype rest)
  from Cons.prems obtain uri response reqs1 responses reqs2 where
    u: "forecast_uri points_doc dtype = Inr uri" and
    r: "make_get_request env uri = (Inr response, reqs1)" and
    f: "fetch_forecasts env points_doc rest = (Inr responses, reqs2)" and
    res: "results = response # responses"
    by (auto split: sum.splits prod.splits)
  from r have "transport env uri = Inr response" by (simp add: make_get_request_def)
  with u Cons.IH [OF f] res show ?case by auto
qed

lemma forecast_results_aligned:
  assumes "forecast_results xs = Inr to_return"
  shows "list_all2 (\<lambda>x v. forecast_result (fst x) (snd x) = Inr v) xs to_return"
  using assms
proof (induction xs arbitrary: to_return)
  case Nil
  then show ?case by simp
next
  case (Cons x rest)
  obtain dtype res where x: "x = (dtype, res)" by (cases x)
  from Cons.prems obtain v vs where
    "forecast_result dtype res = Inr v" "forecast_results rest = Inr vs" "to_return = v # vs"
    unfolding x by (auto split: sum.splits)
  with Cons.IH [of vs] x show ?case by simp
qed

lemma forecast_result_projection:
  assumes "forecast_result dtype res = Inr v"
  shows "(if dtype = PStr ''grid'' then py_getitem res ''properties''
          else py_getitem2 res ''properties'' ''periods'') = Inr v"
  using assms
  by (auto simp: forecast_result_def py_getitem2_def split: sum.splits bool.splits if_splits)



lemma points_forecast_length:
  assumes "points_forecast env lat lon (Several dtypes) = (Inr results, reqs)"
  shows "\<exists>points_doc.
           transport env (JStr (''/points/'' @ str_float env lat @ '','' @ str_float env lon))
             = Inr points_doc
         \<and> list_all2 (\<lambda>dtype res. \<exists>uri. forecast_uri points_doc dtype = Inr uri
              \<and> transport env uri = Inr res) dtypes results"
proof -
  from assms obtain points_doc reqs1 reqs2 where
    p: "make_get_request env
          (JStr (''/points/'' @ str_float env lat @ '','' @ str_float env lon))
        = (Inr points_doc, reqs1)" and
    f: "fetch_forecasts env points_doc dtypes = (Inr results, reqs2)"
    by (auto simp: points_forecast_def as_list_def split: if_splits sum.splits prod.splits)
  from p have "transport env (JStr (''/points/'' @ str_float env lat @ '','' @ str_float env lon))
      = Inr points_doc"
    by (simp add: make_get_request_def)
  with fetch_forecasts_aligned [OF f] show ?thesis by blast
qed

text \<open>
  C3. When \<^verbatim>\<open>get_forecasts\<close> returns, it returns as many results as data types were
  asked for, and the result at each position is the projection of the document fetched
  for the data type at that position: from the link of the points document chosen by the
  data type, \<^verbatim>\<open>properties\<close> for \<^verbatim>\<open>grid\<close> and \<^verbatim>\<open>properties.periods\<close> otherwise.
\<close>

theorem get_forecasts_aligned:
  assumes "get_forecasts env postal_code country data_type return_result_object
             = (Inr (to_return, result_object), reqs)"
  shows "length to_return = length (as_list data_type)
       \<and> (\<exists>lat lon points_doc.
            get_lat_lon_by_postalcode_country env postal_code country return_result_object
              = Inr (lat, lon, result_object)
          \<and> transport env (JStr (''/points/'' @ str_float env lat @ '','' @ str_float env lon))
              = Inr points_doc
          \<and> list_all2 (\<lambda>dtype v. \<exists>uri res.
                forecast_uri points_doc dtype = Inr uri
              \<and> transport env uri = Inr res
              \<and> (if dtype = PStr ''grid'' then py_getitem res ''properties''
                  else py_getitem2 res ''properties'' ''periods'') = Inr v)
              (as_list data_type) to_return)"
proof -
  let ?dtypes = "as_list data_type"
  from assms obtain lat lon results where
    g: "get_lat_lon_by_postalcode_country env postal_code country return_result_object
          = Inr (lat, lon, result_object)" and
    p: "points_forecast env lat lon (Several ?dtypes) = (Inr results, reqs)" and
    v: "forecast_results (zip ?dtypes results) = Inr to_return"
    by (auto simp: get_forecasts_def Let_def split: sum.splits prod.splits)
  from points_forecast_length [OF p] obtain points_doc where
    t: "transport env (JStr (''/points/'' @ str_float env lat @ '','' @ str_float env lon))
          = Inr points_doc" and
    a: "list_all2 (\<lambda>dtype res. \<exists>uri. forecast_uri points_doc dtype = Inr uri
              \<and> transport env uri = Inr res) ?dtypes results"
    by blast
  from a have len: "length ?dtypes = length results" by (rule list_all2_lengthD)
  note b = forecast_results_aligned [OF v]
  from b have len2: "length to_return = length ?dtypes"
    using len by (auto dest: list_all2_lengthD)
  have "list_all2 (\<lambda>dtype v. \<exists>uri res.
                forecast_uri points_doc dtype = Inr uri
              \<and> transport env uri = Inr res
              \<and> (if dtype = PStr ''grid'' then py_getitem res ''properties''
                  else py_getitem2 res ''properties'' ''periods'') = Inr v)
              ?dtypes to_return"
  proof (rule list_all2_all_nthI)
    show "length ?dtypes = length to_return" using len2 by simp
  next
    fix i assume i: "i < length ?dtypes"
    from a i obtain uri where
      u: "forecast_uri points_doc (?dtypes ! i) = Inr uri" and
      r: "transport env uri = Inr (results ! i)"
      by (auto simp: list_all2_conv_all_nth)
    from b i len len2 have "forecast_result (?dtypes ! i) (results ! i) = Inr (to_return ! i)"
      by (auto simp: list_all2_conv_all_nth)
    from forecast_result_projection [OF this] u r
    show "\<exists>uri res. forecast_uri points_doc (?dtypes ! i) = Inr uri
              \<and> transport env uri = Inr res
              \<and> (if ?dtypes ! i = PStr ''grid'' then py_getitem res ''properties''
                  else py_getitem2 res ''properties'' ''periods'') = Inr (to_return ! i)"
      by blast
  qed
  with len2 g t show ?thesis by blast
qed

theorem get_forecasts_aligned_witness:
  "length [JList [JObj [(''number'', JInt 1), (''temperature'', JInt 68)]],
           JObj [(''temperature'', JObj [(''uom'', JStr ''wmoUnit:degC'')])],
           JList [JObj [(''name'', JStr ''Today''), (''temperature'', JInt 71)]]]
     = length (as_list (Several [PStr ''hourly'', PStr ''grid'', PNone]))
   \<and> (\<exists>lat lon points_doc.
        get_lat_lon_by_postalcode_country example_env ''10001'' ''US'' False
          = Inr (lat, lon, None)
      \<and> transport example_env
            (JStr (''/points/'' @ str_float example_env lat @ '','' @ str_float example_env lon))
          = Inr points_doc
      \<and> list_all2 (\<lambda>dtype v. \<exists>uri res.
            forecast_uri points_doc dtype = Inr uri
          \<and> transport example_env uri = Inr res
          \<and> (if dtype = PStr ''grid'' then py_getitem res ''properties''
              else py_getitem2 res ''properties'' ''periods'') = Inr v)
          (as_list (Several [PStr ''hourly'', PStr ''grid'', PNone]))
          [JList [JObj [(''number'', JInt 1), (''temperature'', JInt 68)]],
           JObj [(''temperature'', JObj [(''uom'', JStr ''wmoUnit:degC'')])],
           JList [JObj [(''name'', JStr ''Today''), (''temperature'', JInt 71)]]])"
  by (rule get_forecasts_aligned [OF example_forecasts])




text \<open>
  C5. For a points document without \<^verbatim>\<open>properties\<close>, the observation stream raises
  "No Observation Stations found", as it checks the document. The forecast path does not
  check it: \<^verbatim>\<open>points_forecast\<close>, and \<^verbatim>\<open>get_forecasts\<close> through it, raise the
  \<^verbatim>\<open>KeyError\<close> of the subscript \<^verbatim>\<open>points['properties']\<close>, and for an empty list of data
  types they return an empty list.
\<close>

theorem points_document_without_properties:
  "get_observations_by_lat_lon bare_env 40.75 (- 73.99) PNone PNone 1
     = ([], Some NoObservationStations, [JStr ''/points/40.75,-73.99''])
   \<and> points_forecast bare_env 40.75 (- 73.99) (Single (PStr ''grid''))
     = (Inl (KeyError ''properties''), [JStr ''/points/40.75,-73.99''])
   \<and> get_forecasts bare_env ''10001'' ''US'' (Single (PStr ''grid'')) False
     = (Inl (KeyError ''properties''), [JStr ''/points/40.75,-73.99''])
   \<and> get_forecasts bare_env ''10001'' ''US'' (Several []) False
     = (Inr ([], None), [JStr ''/points/40.75,-73.99''])"
  by code_simp

lemma observation_stations_first_request:
  "\<exists>rest. snd (observation_stations env lat lon)
     = JStr (''/points/'' @ str_float env (round4 env lat) @ '','' @ str_float env (round4 env lon))
       # rest"
  by (auto simp: observation_stations_def points_def make_get_request_def
      split: sum.splits bool.splits prod.splits)

lemma get_observations_first_request:
  "take 1 (snd (snd (get_observations_by_lat_lon env lat lon start end_time n)))
     = [JStr (''/points/'' @ str_float env (round4 env lat) @ '','' @ str_float env (round4 env lon))]"
proof -
  obtain rest where "snd (observation_stations env lat lon)
     = JStr (''/points/'' @ str_float env (round4 env lat) @ '','' @ str_float env (round4 env lon))
       # rest"
    using observation_stations_first_request [of env lat lon] by (elim exE) simp
  then show ?thesis
    by (auto simp: get_observations_by_lat_lon_def split: sum.splits prod.splits)
qed

lemma points_forecast_first_request:
  "take 1 (snd (points_forecast env lat lon (Single PNone)))
     = [JStr (''/points/'' @ str_float env lat @ '','' @ str_float env lon)]"
  by (auto simp: points_forecast_def as_list_def known_dtype_def make_get_request_def
      split: sum.splits prod.splits)

text \<open>
  C7. The first request of the observation stream is the points document of the
  coordinate rounded to 4 decimal places. The first request of \<^verbatim>\<open>points_forecast\<close> is
  the points document of the coordinate as it was passed, not rounded: for the latitude
  40.74846 and the longitude -73.98567 its path is \<^verbatim>\<open>/points/40.74846,-73.98567\<close>, where
  the observation stream asks for \<^verbatim>\<open>/points/40.7485,-73.9857\<close>.
\<close>

theorem points_forecast_coordinates_not_rounded:
  "take 1 (snd (snd (get_observations_by_lat_lon env lat lon start end_time n)))
     = [JStr (''/points/'' @ str_float env (round4 env lat) @ '','' @ str_float env (round4 env lon))]
   \<and> take 1 (snd (points_forecast env lat lon (Single PNone)))
     = [JStr (''/points/'' @ str_float env lat @ '','' @ str_float env lon)]
   \<and> snd (snd (get_observations_by_lat_lon example_env 40.74846 (- 73.98567) PNone PNone 1))
     = [JStr ''/points/40.7485,-73.9857'']
   \<and> snd (points_forecast example_env 40.74846 (- 73.98567) (Single PNone))
     = [JStr ''/points/40.74846,-73.98567'']"
proof -
  have "snd (snd (get_observations_by_lat_lon example_env 40.74846 (- 73.98567) PNone PNone 1))
     = [JStr ''/points/40.7485,-73.9857'']"
    by code_simp
  moreover have "snd (points_forecast example_env 40.74846 (- 73.98567) (Single PNone))
     = [JStr ''/points/40.74846,-73.98567'']"
    by code_simp
  ultimately show ?thesis
    using get_observations_first_request [of env lat lon start end_time n]
      points_forecast_first_request [of env lat lon]
    by simp
qed

end
